theory Spec2Isabelle
  imports Complex_Main
begin

section \<open>Data model\<close>

text \<open>
  The program computes with Python floats. In the records they are real numbers, the
  finite values of the floats, compared as the floats are. The coordinate formulas are
  modelled with exact arithmetic. \<open>Camera.to_servo\<close> is modelled in double precision,
  with the rounding of each operation, because rounding decides the range of its result
  (section \<open>Double precision\<close>).
\<close>

text \<open>
  \<open>GPSCoord\<close> and \<open>LocalCoord\<close> are imported by \<open>camera.py\<close> from \<open>coords.py\<close>. The fields
  are the ones the two files read (\<open>coords.py\<close> abbreviates them to \<open>lat\<close>, \<open>long\<close>,
  \<open>alt\<close>), in the order of the constructor calls \<open>GPSCoord(0.0, 0.0, 0.0)\<close> and
  \<open>LocalCoords(vertical, horizontal, delta_norm)\<close>.
\<close>

record GPSCoord =
  latitude :: real
  longitude :: real
  altitude :: real

record LocalCoord =
  altitude_angle :: real
  azimuth :: real
  distance :: real

record View =
  upper_bound :: real
  lower_bound :: real
  left_bound :: real
  right_bound :: real

text \<open>The exceptions of Python that the modelled code can raise.\<close>

datatype error = AttributeError | TypeError | IndexError | ZeroDivisionError

section \<open>View.contains\<close>

text \<open>
  \<^verbatim>\<open>
  position_in_view = False
  if self.upper_bound <= position.altitude_angle <= self.lower_bound:
      if self.left_bound <= position.azimuth <= self.right_bound:
          position_in_view = True
      elif self.left_bound >= self.right_bound and (
          self.left_bound <= position.azimuth
          or position.azimuth <= self.right_bound
      ):
          position_in_view = True
  return position_in_view
  \<close>
\<close>

definition contains :: "View \<Rightarrow> LocalCoord \<Rightarrow> bool" where
  "contains self position =
     (if upper_bound self \<le> altitude_angle position
         \<and> altitude_angle position \<le> lower_bound self
      then
        (if left_bound self \<le> azimuth position \<and> azimuth position \<le> right_bound self
         then True
         else if left_bound self \<ge> right_bound self
                 \<and> (left_bound self \<le> azimuth position
                      \<or> azimuth position \<le> right_bound self)
         then True
         else False)
      else False)"

text \<open>The two tests as the specification words them (section 4.3).\<close>

definition altitude_test :: "View \<Rightarrow> LocalCoord \<Rightarrow> bool" where
  "altitude_test w c \<longleftrightarrow>
     upper_bound w \<le> altitude_angle c \<and> altitude_angle c \<le> lower_bound w"

definition azimuth_test_spec :: "View \<Rightarrow> LocalCoord \<Rightarrow> bool" where
  "azimuth_test_spec w c =
     (if left_bound w \<le> right_bound w
      then left_bound w \<le> azimuth c \<and> azimuth c \<le> right_bound w
      else azimuth c \<ge> left_bound w \<or> azimuth c \<le> right_bound w)"

text \<open>The azimuth test with the wrapping case starting at equal bounds.\<close>

definition azimuth_test :: "View \<Rightarrow> LocalCoord \<Rightarrow> bool" where
  "azimuth_test w c =
     (if left_bound w < right_bound w
      then left_bound w \<le> azimuth c \<and> azimuth c \<le> right_bound w
      else azimuth c \<ge> left_bound w \<or> azimuth c \<le> right_bound w)"

section \<open>Airplane\<close>

text \<open>
  \<open>self.extrapolation\<close> holds one of three closures. \<open>Origin\<close> is the one of
  \<open>__init__\<close>, \<open>lambda x: GPSCoord(0.0, 0.0, 0.0)\<close>. \<open>First_sample\<close> is
  \<open>lambda t: self.timestamped_positions[0][1]\<close>, which reads the buffer when it is called.
  \<open>Fitted f\<close> is \<open>lambda t: GPSCoord(*extrapolate_array(t - self.init_time))\<close> with
  \<open>f\<close> the captured \<open>extrapolate_array\<close>.
\<close>

datatype extrap =
    Origin
  | First_sample
  | Fitted "real \<Rightarrow> real list"

record Airplane =
  ident :: "nat option"
  init_time :: real
  extrapolation :: extrap
  timestamped_positions :: "(real \<times> GPSCoord) list"

definition max_timestamped_positions :: nat where
  "max_timestamped_positions = 3"

text \<open>\<open>Airplane.__init__\<close>; the argument is \<open>init_time\<close>.\<close>

definition Airplane_init :: "real \<Rightarrow> Airplane" where
  "Airplane_init t =
     \<lparr>ident = None, init_time = t, extrapolation = Origin, timestamped_positions = []\<rparr>"

text \<open>
  \<open>deque.append\<close> on a deque with a maximum length: the item is appended on the right
  and, when the deque is then longer than the maximum, one item is dropped on the left.
\<close>

definition deque_append :: "nat \<Rightarrow> 'a list \<Rightarrow> 'a \<Rightarrow> 'a list" where
  "deque_append maxlen d x =
     (let d' = d @ [x] in if length d' > maxlen then tl d' else d')"

text \<open>
  \<open>GPSCoord(*xs)\<close>: the constructor takes three positional arguments, any other number
  is a \<open>TypeError\<close>.
\<close>

fun GPSCoord_of_args :: "real list \<Rightarrow> error + GPSCoord" where
  "GPSCoord_of_args [a, b, c] = Inr \<lparr>latitude = a, longitude = b, altitude = c\<rparr>"
| "GPSCoord_of_args _ = Inl TypeError"

text \<open>The lists \<open>times\<close> and \<open>positions\<close> that the loop of \<open>_update_extrapolation\<close> builds.\<close>

definition sample_times :: "real \<Rightarrow> (real \<times> GPSCoord) list \<Rightarrow> real list" where
  "sample_times t0 tps = map (\<lambda>(tm, coord). tm - t0) tps"

definition sample_positions :: "(real \<times> GPSCoord) list \<Rightarrow> real list list" where
  "sample_positions tps =
     map (\<lambda>(tm, coord). [latitude coord, longitude coord, altitude coord]) tps"

text \<open>
  \<open>Airplane._update_extrapolation\<close>. \<open>util.extrapolate\<close> is not among the sources; it is
  the parameter \<open>extrapolate\<close>, a function from the two lists to the fitted function of
  time, which returns the list that \<open>GPSCoord(*...)\<close> unpacks.
\<close>

definition update_extrapolation ::
  "(real list \<Rightarrow> real list list \<Rightarrow> real \<Rightarrow> real list) \<Rightarrow> Airplane \<Rightarrow> Airplane" where
  "update_extrapolation extrapolate self =
     (let times = sample_times (init_time self) (timestamped_positions self);
          positions = sample_positions (timestamped_positions self)
      in if length times = 1
         then self\<lparr>extrapolation := First_sample\<rparr>
         else self\<lparr>extrapolation := Fitted (extrapolate times positions)\<rparr>)"

text \<open>\<open>Airplane.append_position\<close>.\<close>

definition append_position ::
  "(real list \<Rightarrow> real list list \<Rightarrow> real \<Rightarrow> real list) \<Rightarrow> Airplane \<Rightarrow> real \<Rightarrow> GPSCoord
   \<Rightarrow> Airplane" where
  "append_position extrapolate self new_time new_pos =
     update_extrapolation extrapolate
       (self\<lparr>timestamped_positions :=
          deque_append max_timestamped_positions (timestamped_positions self)
            (new_time, new_pos)\<rparr>)"

text \<open>
  \<open>self.extrapolation(t)\<close>, the position estimate at time \<open>t\<close>; indexing an empty deque
  is an \<open>IndexError\<close>.
\<close>

definition estimate :: "Airplane \<Rightarrow> real \<Rightarrow> error + GPSCoord" where
  "estimate self t =
     (case extrapolation self of
        Origin \<Rightarrow> Inr \<lparr>latitude = 0, longitude = 0, altitude = 0\<rparr>
      | First_sample \<Rightarrow>
          (case timestamped_positions self of
             [] \<Rightarrow> Inl IndexError
           | tp # _ \<Rightarrow> Inr (snd tp))
      | Fitted extrapolate_array \<Rightarrow> GPSCoord_of_args (extrapolate_array (t - init_time self)))"

text \<open>The property \<open>Airplane.position\<close>; \<open>now\<close> is the value of \<open>time()\<close>.\<close>

definition position :: "Airplane \<Rightarrow> real \<Rightarrow> error + GPSCoord" where
  "position self now = estimate self now"

text \<open>
  An aircraft is created by \<open>Airplane(init_time)\<close> and changed by \<open>append_position\<close>
  only: \<open>ingest\<close> is the aircraft after the samples of a list, in their order of arrival.
\<close>

definition ingest ::
  "(real list \<Rightarrow> real list list \<Rightarrow> real \<Rightarrow> real list) \<Rightarrow> real \<Rightarrow> (real \<times> GPSCoord) list
   \<Rightarrow> Airplane" where
  "ingest extrapolate t0 samples =
     foldl (\<lambda>plane (new_time, new_pos). append_position extrapolate plane new_time new_pos)
       (Airplane_init t0) samples"

section \<open>Coordinate transform\<close>

type_synonym vec3 = "real \<times> real \<times> real"

definition equatorial_radius :: real where
  "equatorial_radius = 20925646.3"

definition polar_radius :: real where
  "polar_radius = 20855486.5"

text \<open>numpy on three-component arrays: \<open>u.dot(v)\<close>, \<open>u - v\<close> and \<open>la.norm(v)\<close>.\<close>

definition dot :: "vec3 \<Rightarrow> vec3 \<Rightarrow> real" where
  "dot u v =
     (case u of (u0, u1, u2) \<Rightarrow> case v of (v0, v1, v2) \<Rightarrow> u0 * v0 + u1 * v1 + u2 * v2)"

definition vsub :: "vec3 \<Rightarrow> vec3 \<Rightarrow> vec3" where
  "vsub u v =
     (case u of (u0, u1, u2) \<Rightarrow> case v of (v0, v1, v2) \<Rightarrow> (u0 - v0, u1 - v1, u2 - v2))"

definition la_norm :: "vec3 \<Rightarrow> real" where
  "la_norm v = sqrt (dot v v)"

definition prime_vertical_radius_of_curvature :: "real \<Rightarrow> real" where
  "prime_vertical_radius_of_curvature phi =
     sqrt (1 - (1 - polar_radius ^ 2 / equatorial_radius ^ 2) * sin phi ^ 2)"

definition get_ecef :: "GPSCoord \<Rightarrow> vec3" where
  "get_ecef self =
     (let n_phi = prime_vertical_radius_of_curvature (latitude self);
          x = (n_phi + altitude self) * cos (latitude self) * cos (longitude self);
          y = (n_phi + altitude self) * cos (latitude self) * sin (longitude self);
          z = ((polar_radius ^ 2 / equatorial_radius ^ 2) * n_phi + altitude self)
                * sin (latitude self)
      in (x, y, z))"

text \<open>The formulas of the specification (section 4.1), with its constants.\<close>

definition N_spec :: "real \<Rightarrow> real" where
  "N_spec \<phi> = sqrt (1 - (1 - 20855486.5\<^sup>2 / 20925646.3\<^sup>2) * (sin \<phi>)\<^sup>2)"

definition ecef_spec :: "real \<Rightarrow> real \<Rightarrow> real \<Rightarrow> vec3" where
  "ecef_spec \<phi> l alt =
     ((N_spec \<phi> + alt) * cos \<phi> * cos l,
      (N_spec \<phi> + alt) * cos \<phi> * sin l,
      ((20855486.5\<^sup>2 / 20925646.3\<^sup>2) * N_spec \<phi> + alt) * sin \<phi>)"

text \<open>
  \<open>np.array(object, dtype, ...)\<close>: numpy takes the second positional argument as the
  dtype and accepts no third one. \<open>to_local\<close> calls it with three scalars,
  \<open>np.array(-x * z, -y * z, x ** 2 + y ** 2)\<close>, where \<open>get_ecef\<close> passes one list,
  \<open>np.array([x, y, z])\<close>. A float is no dtype: the call raises \<open>TypeError\<close>, whatever
  the three numbers are.
\<close>

definition np_array_scalars :: "real \<Rightarrow> real \<Rightarrow> real \<Rightarrow> error" where
  "np_array_scalars object dtype copy = TypeError"

text \<open>
  \<open>to_local\<close>. Lines 26 to 30 compute \<open>self_ecef\<close>, \<open>delta\<close>, \<open>delta_norm\<close> and
  \<open>vertical\<close> (numpy's \<open>acos\<close> is \<open>arccos\<close>) and raise nothing: numpy divides by zero
  with a warning. The next statement builds \<open>level_north\<close> by \<open>np.array\<close> with three
  scalars and raises, so the lines after it (the projections, the \<open>pi / 2\<close> fallback,
  the latitude test and the \<open>return\<close>) are never reached.
\<close>

definition to_local :: "GPSCoord \<Rightarrow> GPSCoord \<Rightarrow> error + LocalCoord" where
  "to_local self target =
     (let self_ecef = get_ecef self;
          delta = vsub self_ecef (get_ecef target);
          delta_norm = la_norm delta;
          vertical = arccos (dot self_ecef delta / (la_norm self_ecef * delta_norm))
      in case self_ecef of
           (e0, e1, e2) \<Rightarrow> Inl (np_array_scalars (- e0 * e2) (- e1 * e2) (e0 ^ 2 + e1 ^ 2)))"

section \<open>Double precision\<close>

text \<open>
  A Python float is an IEEE 754 binary64 number: a finite value \<open>m * 2 ^ e\<close> with
  \<open>\<bar>m\<bar> < 2 ^ 53\<close> and \<open>- 1074 \<le> e\<close>, an infinity or a \<open>nan\<close>. The two zeros are one
  value here.
\<close>

datatype pyfloat = Fin real | PosInf | NegInf | NaN

text \<open>
  The binary exponent of a non-zero real, not below that of the subnormal numbers; the
  last binary digit of a double with this exponent has the weight \<open>2 ^ (exponent - 52)\<close>.
\<close>

definition double_exponent :: "real \<Rightarrow> int" where
  "double_exponent x = max \<lfloor>log 2 \<bar>x\<bar>\<rfloor> (- 1022)"

text \<open>Rounding to the nearest integer, a tie to the even one.\<close>

definition round_half_even :: "real \<Rightarrow> int" where
  "round_half_even y =
     (let f = \<lfloor>y\<rfloor>; r = y - of_int f
      in if r < 1 / 2 then f
         else if r > 1 / 2 then f + 1
         else if even f then f else f + 1)"

text \<open>
  The default rounding of IEEE 754, to the nearest double with ties to even, before the
  test for overflow.
\<close>

definition round_double :: "real \<Rightarrow> real" where
  "round_double x =
     (if x = 0 then 0
      else of_int (round_half_even (x / 2 powi (double_exponent x - 52)))
             * 2 powi (double_exponent x - 52))"

text \<open>The float that an arithmetic operation returns for the exact result \<open>x\<close>.\<close>

definition to_double :: "real \<Rightarrow> pyfloat" where
  "to_double x =
     (let y = round_double x
      in if 2 ^ 1024 \<le> y then PosInf
         else if y \<le> - (2 ^ 1024) then NegInf
         else Fin y)"

text \<open>\<open>math.pi\<close>, the double \<open>0x400921FB54442D18\<close>.\<close>

definition math_pi :: real where
  "math_pi = 884279719003555 / 2 ^ 48"

text \<open>\<open>a - b\<close> on two finite floats.\<close>

definition float_sub :: "real \<Rightarrow> real \<Rightarrow> pyfloat" where
  "float_sub a b = to_double (a - b)"

text \<open>
  C's \<open>fmod\<close> on finite doubles, \<open>y\<close> not zero: \<open>x - n * y\<close> with \<open>n\<close> the quotient
  truncated towards zero. The result is exact.
\<close>

definition c_trunc :: "real \<Rightarrow> int" where
  "c_trunc r = (if 0 \<le> r then \<lfloor>r\<rfloor> else \<lceil>r\<rceil>)"

definition fmod :: "real \<Rightarrow> real \<Rightarrow> real" where
  "fmod x y = x - y * of_int (c_trunc (x / y))"

text \<open>
  Python's \<open>v % w\<close> on floats with a finite divisor (\<open>float_rem\<close> of CPython):
  \<^verbatim>\<open>
  if (wx == 0.0) raise ZeroDivisionError
  mod = fmod(vx, wx);
  if (mod) {
      if ((wx < 0) != (mod < 0)) mod += wx;
  }
  else mod = copysign(0.0, wx);
  \<close>
  \<open>fmod\<close> of an infinity or a \<open>nan\<close> is \<open>nan\<close>, which the two tests leave as it is.
  The addition \<open>mod += wx\<close> rounds.
\<close>

definition float_rem :: "pyfloat \<Rightarrow> real \<Rightarrow> error + pyfloat" where
  "float_rem v wx =
     (if wx = 0 then Inl ZeroDivisionError
      else case v of
             Fin vx \<Rightarrow>
               (let m = fmod vx wx
                in if m \<noteq> 0
                   then (if (wx < 0) \<noteq> (m < 0) then Inr (to_double (m + wx)) else Inr (Fin m))
                   else Inr (Fin 0))
           | _ \<Rightarrow> Inr NaN)"

text \<open>The modulo of the specification: the real number in \<open>[0, b)\<close> congruent to \<open>a\<close>.\<close>

definition mod_exact :: "real \<Rightarrow> real \<Rightarrow> real" where
  "mod_exact a b = a - b * of_int \<lfloor>a / b\<rfloor>"

section \<open>Camera\<close>

text \<open>The attributes that \<open>Camera.__init__\<close> sets to \<open>None\<close> are options.\<close>

record Camera =
  gps_position :: "GPSCoord option"
  tracked_airplane :: "Airplane option"
  direction :: "real option"
  view :: "View option"
  airplanes :: "Airplane list"

definition Camera_init :: Camera where
  "Camera_init = \<lparr>gps_position = None, tracked_airplane = None, direction = None,
                   view = None, airplanes = []\<rparr>"

text \<open>
  \<open>Camera.to_servo\<close>. \<open>None - lc.azimuth\<close> is a \<open>TypeError\<close>. The products \<open>2 * pi\<close>
  and \<open>pi / 2\<close> of the source are exact in binary floating point (lemma
  \<open>pi_multiples_exact\<close>), so they are written as the real numbers \<open>2 * math_pi\<close> and
  \<open>math_pi / 2\<close>.
\<close>

definition to_servo :: "Camera \<Rightarrow> LocalCoord \<Rightarrow> error + pyfloat \<times> pyfloat" where
  "to_servo self lc =
     (case direction self of
        None \<Rightarrow> Inl TypeError
      | Some d \<Rightarrow>
          (case float_rem (float_sub d (azimuth lc)) (2 * math_pi) of
             Inl e \<Rightarrow> Inl e
           | Inr pan \<Rightarrow> Inr (pan, float_sub (math_pi / 2) (altitude_angle lc))))"

text \<open>
  \<open>Camera.can_see\<close>. Python looks up \<open>self.gps_position.to_local\<close> before it evaluates
  the argument \<open>plane.position\<close>, and \<open>self.view.contains\<close> after \<open>to_local\<close> has returned;
  an attribute of \<open>None\<close> is an \<open>AttributeError\<close>.
\<close>

definition can_see :: "Camera \<Rightarrow> Airplane \<Rightarrow> real \<Rightarrow> error + bool" where
  "can_see self plane now =
     (case gps_position self of
        None \<Rightarrow> Inl AttributeError
      | Some own_position \<Rightarrow>
     (case position plane now of
        Inl e \<Rightarrow> Inl e
      | Inr plane_position \<Rightarrow>
     (case to_local own_position plane_position of
        Inl e \<Rightarrow> Inl e
      | Inr plane_local \<Rightarrow>
     (case view self of
        None \<Rightarrow> Inl AttributeError
      | Some v \<Rightarrow> Inr (contains v plane_local)))))"

section \<open>Example inputs\<close>

text \<open>
  The inputs of the concrete instances: an observer at latitude, longitude and altitude 0,
  three targets, two stand-ins for \<open>util.extrapolate\<close>, and a camera at the observer's
  position that looks between the azimuths 0 and \<open>2 * pi\<close>.
\<close>

abbreviation (input) origin_observer :: GPSCoord where
  "origin_observer \<equiv> \<lparr>latitude = 0, longitude = 0, altitude = 0\<rparr>"

abbreviation (input) overhead_target :: GPSCoord where
  "overhead_target \<equiv> \<lparr>latitude = 0, longitude = 0, altitude = 1\<rparr>"

abbreviation (input) north_target :: GPSCoord where
  "north_target \<equiv> \<lparr>latitude = 1 / 10 ^ 12, longitude = 0, altitude = 0\<rparr>"

abbreviation (input) south_east_target :: GPSCoord where
  "south_east_target \<equiv> \<lparr>latitude = - (pi / 6), longitude = pi / 2, altitude = 0\<rparr>"

abbreviation (input) no_fit :: "real list \<Rightarrow> real list list \<Rightarrow> real \<Rightarrow> real list" where
  "no_fit \<equiv> \<lambda>times positions t. []"

abbreviation (input) mean_time_fit ::
  "real list \<Rightarrow> real list list \<Rightarrow> real \<Rightarrow> real list" where
  "mean_time_fit \<equiv> \<lambda>times positions t. [sum_list times / real (length times), t, 0]"

abbreviation (input) whole_sky_camera :: Camera where
  "whole_sky_camera \<equiv>
     \<lparr>gps_position = Some origin_observer, tracked_airplane = None, direction = Some 0,
      view = Some \<lparr>upper_bound = 0, lower_bound = pi, left_bound = 0,
                   right_bound = 2 * pi\<rparr>,
      airplanes = []\<rparr>"

section \<open>Properties of View.contains\<close>

text \<open>
  C2, as stated, fails: a window whose left and right azimuth bounds are equal is taken
  by the second branch (\<open>left_bound >= right_bound\<close>), which every azimuth passes.
  With both bounds 1 the azimuth 2 is in view, and the non-wrapping test of the
  specification rejects it.
\<close>

theorem contains_equal_bounds_counterexample:
  "contains \<lparr>upper_bound = 0, lower_bound = 3, left_bound = 1, right_bound = 1\<rparr>
            \<lparr>altitude_angle = 1, azimuth = 2, distance = 5\<rparr>
   \<and> \<not> (altitude_test \<lparr>upper_bound = 0, lower_bound = 3, left_bound = 1, right_bound = 1\<rparr>
            \<lparr>altitude_angle = 1, azimuth = 2, distance = 5\<rparr>
        \<and> azimuth_test_spec
            \<lparr>upper_bound = 0, lower_bound = 3, left_bound = 1, right_bound = 1\<rparr>
            \<lparr>altitude_angle = 1, azimuth = 2, distance = 5\<rparr>)"
  by (simp add: contains_def altitude_test_def azimuth_test_spec_def)

text \<open>
  C2, amended: \<open>contains\<close> is true exactly when the altitude test and the azimuth test
  pass, where the azimuth test is \<open>left \<le> azimuth \<le> right\<close> when \<open>left < right\<close> and
  \<open>azimuth \<ge> left \<or> azimuth \<le> right\<close> when \<open>left \<ge> right\<close>; a failed altitude test
  gives false whatever the azimuth.
\<close>

theorem contains_iff:
  "(contains w c \<longleftrightarrow> altitude_test w c \<and> azimuth_test w c)
   \<and> (\<not> altitude_test w c \<longrightarrow> \<not> contains w c)"
  by (auto simp: contains_def altitude_test_def azimuth_test_def)

theorem contains_iff_witness:
  "(contains \<lparr>upper_bound = 0, lower_bound = 3, left_bound = 1, right_bound = 2\<rparr>
             \<lparr>altitude_angle = 4, azimuth = 1, distance = 5\<rparr>
    \<longleftrightarrow> altitude_test \<lparr>upper_bound = 0, lower_bound = 3, left_bound = 1, right_bound = 2\<rparr>
             \<lparr>altitude_angle = 4, azimuth = 1, distance = 5\<rparr>
      \<and> azimuth_test \<lparr>upper_bound = 0, lower_bound = 3, left_bound = 1, right_bound = 2\<rparr>
             \<lparr>altitude_angle = 4, azimuth = 1, distance = 5\<rparr>)
   \<and> \<not> altitude_test \<lparr>upper_bound = 0, lower_bound = 3, left_bound = 1, right_bound = 2\<rparr>
             \<lparr>altitude_angle = 4, azimuth = 1, distance = 5\<rparr>
   \<and> \<not> contains \<lparr>upper_bound = 0, lower_bound = 3, left_bound = 1, right_bound = 2\<rparr>
             \<lparr>altitude_angle = 4, azimuth = 1, distance = 5\<rparr>"
  using contains_iff [of "\<lparr>upper_bound = 0, lower_bound = 3, left_bound = 1, right_bound = 2\<rparr>"
                         "\<lparr>altitude_angle = 4, azimuth = 1, distance = 5\<rparr>"]
  by (simp add: altitude_test_def)

text \<open>
  C10: a view whose upper bound is greater than its lower bound has an empty altitude
  band. \<open>contains\<close> is false for every local coordinate; it is a total function to
  \<open>bool\<close>, the comparisons of the source raise nothing.
\<close>

theorem contains_empty_band:
  "upper_bound w > lower_bound w \<Longrightarrow> contains w c = False"
  by (simp add: contains_def)

theorem contains_empty_band_witness:
  "upper_bound \<lparr>upper_bound = 2, lower_bound = 1, left_bound = 0, right_bound = 6\<rparr>
     > lower_bound \<lparr>upper_bound = 2, lower_bound = 1, left_bound = 0, right_bound = 6\<rparr>
   \<and> contains \<lparr>upper_bound = 2, lower_bound = 1, left_bound = 0, right_bound = 6\<rparr>
               \<lparr>altitude_angle = 1, azimuth = 3, distance = 5\<rparr> = False"
  using contains_empty_band
          [of "\<lparr>upper_bound = 2, lower_bound = 1, left_bound = 0, right_bound = 6\<rparr>"
              "\<lparr>altitude_angle = 1, azimuth = 3, distance = 5\<rparr>"]
  by simp

section \<open>The sample buffer and the extrapolation\<close>

lemma ingest_Nil: "ingest ex t0 [] = Airplane_init t0"
  by (simp add: ingest_def)

lemma ingest_snoc:
  "ingest ex t0 (ss @ [s]) = append_position ex (ingest ex t0 ss) (fst s) (snd s)"
  by (simp add: ingest_def split: prod.splits)

lemma init_time_update_extrapolation [simp]:
  "init_time (update_extrapolation ex a) = init_time a"
  by (simp add: update_extrapolation_def Let_def)

lemma buffer_update_extrapolation [simp]:
  "timestamped_positions (update_extrapolation ex a) = timestamped_positions a"
  by (simp add: update_extrapolation_def Let_def)

lemma extrapolation_update_extrapolation:
  "extrapolation (update_extrapolation ex a) =
     (if length (timestamped_positions a) = 1 then First_sample
      else Fitted (ex (sample_times (init_time a) (timestamped_positions a))
                      (sample_positions (timestamped_positions a))))"
  by (simp add: update_extrapolation_def Let_def sample_times_def)

lemma init_time_ingest: "init_time (ingest ex t0 ss) = t0"
  by (induction ss rule: rev_induct)
     (simp_all add: ingest_Nil ingest_snoc Airplane_init_def append_position_def)

text \<open>One append to the last three of a list gives the last three of the longer list.\<close>

lemma deque_append_drop:
  "deque_append 3 (drop (length ss - 3) ss) s = drop (length (ss @ [s]) - 3) (ss @ [s])"
proof (cases "length ss < 3")
  case True
  then show ?thesis by (simp add: deque_append_def)
next
  case False
  define n where "n = length ss - 3"
  have n: "length ss = n + 3" using False by (simp add: n_def)
  have ne: "drop n ss \<noteq> []" using n by simp
  have "deque_append 3 (drop n ss) s = tl (drop n ss @ [s])"
    using n by (simp add: deque_append_def Let_def)
  also have "\<dots> = tl (drop n ss) @ [s]" using ne by simp
  also have "\<dots> = drop (Suc n) ss @ [s]" by (simp add: drop_Suc tl_drop)
  also have "\<dots> = drop (length (ss @ [s]) - 3) (ss @ [s])" using n by simp
  finally show ?thesis by (simp add: n_def)
qed

lemma buffer_ingest:
  "timestamped_positions (ingest ex t0 ss) = drop (length ss - 3) ss"
proof (induction ss rule: rev_induct)
  case Nil
  show ?case by (simp add: ingest_Nil Airplane_init_def)
next
  case (snoc s ss)
  have "timestamped_positions (ingest ex t0 (ss @ [s]))
        = deque_append 3 (timestamped_positions (ingest ex t0 ss)) s"
    by (simp add: ingest_snoc append_position_def max_timestamped_positions_def)
  also have "\<dots> = drop (length (ss @ [s]) - 3) (ss @ [s])"
    unfolding snoc.IH by (rule deque_append_drop)
  finally show ?case .
qed

lemma extrapolation_ingest:
  assumes "ss \<noteq> []"
  shows "extrapolation (ingest ex t0 ss) =
           (if length ss = 1 then First_sample
            else Fitted (ex (sample_times t0 (drop (length ss - 3) ss))
                            (sample_positions (drop (length ss - 3) ss))))"
proof -
  from assms obtain ss' s where ss: "ss = ss' @ [s]"
    by (metis rev_exhaust)
  define a where "a = (ingest ex t0 ss')\<lparr>timestamped_positions :=
              deque_append max_timestamped_positions
                (timestamped_positions (ingest ex t0 ss')) (fst s, snd s)\<rparr>"
  have upd: "ingest ex t0 ss = update_extrapolation ex a"
    by (simp add: ss ingest_snoc append_position_def a_def)
  have buf: "timestamped_positions a = drop (length ss - 3) ss"
    using buffer_ingest [of ex t0 ss] by (simp add: upd)
  have it: "init_time a = t0"
    by (simp add: a_def init_time_ingest)
  have len: "length (drop (length ss - 3) ss) = 1 \<longleftrightarrow> length ss = 1"
    by (cases "length ss < 3") auto
  show ?thesis
    unfolding upd extrapolation_update_extrapolation buf it len ..
qed

lemma position_one_sample: "position (ingest ex t0 [(tm, p)]) now = Inr p"
  by (simp add: position_def estimate_def buffer_ingest extrapolation_ingest)

text \<open>
  C1, as stated, fails: a new aircraft has no sample, and its extrapolation is the
  closure of \<open>__init__\<close>, which returns \<open>GPSCoord(0.0, 0.0, 0.0)\<close> and raises nothing.
\<close>

theorem fresh_airplane_counterexample:
  "timestamped_positions (Airplane_init 0) = []
   \<and> estimate (Airplane_init 0) 0 = Inr \<lparr>latitude = 0, longitude = 0, altitude = 0\<rparr>
   \<and> position (Airplane_init 0) 7 = Inr \<lparr>latitude = 0, longitude = 0, altitude = 0\<rparr>"
  by (simp add: Airplane_init_def estimate_def position_def)

text \<open>
  C1, amended: for every aircraft with zero recorded samples, the position estimate at
  every time is the geodetic coordinate \<open>(0, 0, 0)\<close>, returned without an error.
\<close>

theorem estimate_no_samples:
  assumes "timestamped_positions (ingest ex t0 ss) = []"
  shows "estimate (ingest ex t0 ss) t = Inr \<lparr>latitude = 0, longitude = 0, altitude = 0\<rparr>"
proof -
  from assms have "drop (length ss - 3) ss = []"
    by (simp only: buffer_ingest)
  then have "length (drop (length ss - 3) ss) = 0"
    by (simp only: list.size)
  then have "length ss = 0"
    by (simp only: length_drop)
  then have "ss = []"
    by simp
  then show ?thesis
    by (simp add: ingest_Nil Airplane_init_def estimate_def)
qed

theorem estimate_no_samples_witness:
  "timestamped_positions (ingest no_fit 100 []) = []
   \<and> estimate (ingest no_fit 100 []) 160
       = Inr \<lparr>latitude = 0, longitude = 0, altitude = 0\<rparr>"
proof -
  have h: "timestamped_positions (ingest no_fit 100 []) = []"
    by (simp add: ingest_def Airplane_init_def)
  from h estimate_no_samples [OF h, of 160] show ?thesis by simp
qed

text \<open>
  C6: an aircraft whose buffer holds exactly one sample \<open>(t0, P0)\<close> is estimated at
  \<open>P0\<close> at every query time \<open>t\<close>, before, at or after \<open>t0\<close>.
\<close>

theorem estimate_one_sample:
  assumes "timestamped_positions (ingest ex t0 ss) = [(tm, P0)]"
  shows "estimate (ingest ex t0 ss) t = Inr P0"
proof -
  from assms have d: "drop (length ss - 3) ss = [(tm, P0)]"
    by (simp add: buffer_ingest)
  then have "length (drop (length ss - 3) ss) = 1" by simp
  then have len: "length ss = 1"
    by (cases "length ss < 3") auto
  then have ne: "ss \<noteq> []" by auto
  have "extrapolation (ingest ex t0 ss) = First_sample"
    using extrapolation_ingest [OF ne, of ex t0] len by simp
  with assms show ?thesis
    by (simp add: estimate_def)
qed

theorem estimate_one_sample_witness:
  "timestamped_positions
     (ingest no_fit 100 [(130, \<lparr>latitude = 1, longitude = 2, altitude = 30000\<rparr>)])
     = [(130, \<lparr>latitude = 1, longitude = 2, altitude = 30000\<rparr>)]
   \<and> estimate (ingest no_fit 100 [(130, \<lparr>latitude = 1, longitude = 2, altitude = 30000\<rparr>)]) 120
       = Inr \<lparr>latitude = 1, longitude = 2, altitude = 30000\<rparr>"
proof -
  have h: "timestamped_positions
     (ingest no_fit 100 [(130, \<lparr>latitude = 1, longitude = 2, altitude = 30000\<rparr>)])
     = [(130, \<lparr>latitude = 1, longitude = 2, altitude = 30000\<rparr>)]"
    by (simp add: buffer_ingest)
  from h estimate_one_sample [OF h, of 120] show ?thesis by simp
qed

text \<open>
  C7: the buffer never holds more than 3 samples; an append to a full buffer drops its
  oldest sample; after 3 or more appends the buffer is the last 3 samples in their order
  of arrival, the extrapolation is \<open>util.extrapolate\<close> of the times and positions of
  those 3 samples, and the position estimate is read from it.
\<close>

theorem sample_buffer_latest_three:
  "length (timestamped_positions (ingest ex t0 ss)) \<le> 3
   \<and> (length (timestamped_positions a) = 3 \<longrightarrow>
        timestamped_positions (append_position ex a tm p)
          = tl (timestamped_positions a) @ [(tm, p)])
   \<and> (3 \<le> length ss \<longrightarrow>
        timestamped_positions (ingest ex t0 ss) = drop (length ss - 3) ss
        \<and> length (timestamped_positions (ingest ex t0 ss)) = 3
        \<and> extrapolation (ingest ex t0 ss)
            = Fitted (ex (sample_times t0 (drop (length ss - 3) ss))
                         (sample_positions (drop (length ss - 3) ss)))
        \<and> estimate (ingest ex t0 ss) t
            = GPSCoord_of_args (ex (sample_times t0 (drop (length ss - 3) ss))
                                   (sample_positions (drop (length ss - 3) ss)) (t - t0)))"
proof (intro conjI impI)
  show "length (timestamped_positions (ingest ex t0 ss)) \<le> 3"
    by (simp add: buffer_ingest)
next
  assume "length (timestamped_positions a) = 3"
  then show "timestamped_positions (append_position ex a tm p)
          = tl (timestamped_positions a) @ [(tm, p)]"
    by (cases "timestamped_positions a")
       (simp_all add: append_position_def deque_append_def max_timestamped_positions_def)
next
  assume "3 \<le> length ss"
  show "timestamped_positions (ingest ex t0 ss) = drop (length ss - 3) ss"
    by (rule buffer_ingest)
next
  assume "3 \<le> length ss"
  then show "length (timestamped_positions (ingest ex t0 ss)) = 3"
    by (simp add: buffer_ingest)
next
  assume l: "3 \<le> length ss"
  then have "ss \<noteq> []" by auto
  from extrapolation_ingest [OF this, of ex t0] l
  have fit: "extrapolation (ingest ex t0 ss)
            = Fitted (ex (sample_times t0 (drop (length ss - 3) ss))
                         (sample_positions (drop (length ss - 3) ss)))"
    by simp
  then show "extrapolation (ingest ex t0 ss)
            = Fitted (ex (sample_times t0 (drop (length ss - 3) ss))
                         (sample_positions (drop (length ss - 3) ss)))" .
  from fit show "estimate (ingest ex t0 ss) t
            = GPSCoord_of_args (ex (sample_times t0 (drop (length ss - 3) ss))
                                   (sample_positions (drop (length ss - 3) ss)) (t - t0))"
    by (simp add: estimate_def init_time_ingest)
qed

text \<open>
  Four samples with a fit that returns the mean elapsed time as the latitude: the first
  sample, at elapsed time 1, has left the buffer and the fit.
\<close>

theorem sample_buffer_latest_three_witness:
  "length (timestamped_positions
      (ingest mean_time_fit 100 [(101, origin_observer), (102, overhead_target),
                          (103, north_target)])) = 3
   \<and> timestamped_positions
        (append_position mean_time_fit
           (ingest mean_time_fit 100 [(101, origin_observer), (102, overhead_target),
                               (103, north_target)])
           104 south_east_target)
       = [(102, overhead_target), (103, north_target), (104, south_east_target)]
   \<and> 3 \<le> length [(101, origin_observer), (102, overhead_target),
                   (103, north_target), (104, south_east_target)]
   \<and> timestamped_positions
        (ingest mean_time_fit 100 [(101, origin_observer), (102, overhead_target),
                            (103, north_target), (104, south_east_target)])
       = [(102, overhead_target), (103, north_target), (104, south_east_target)]
   \<and> extrapolation
        (ingest mean_time_fit 100 [(101, origin_observer), (102, overhead_target),
                            (103, north_target), (104, south_east_target)])
       = Fitted (mean_time_fit [2, 3, 4]
                   [[0, 0, 1], [1 / 10 ^ 12, 0, 0], [- (pi / 6), pi / 2, 0]])
   \<and> estimate
        (ingest mean_time_fit 100 [(101, origin_observer), (102, overhead_target),
                            (103, north_target), (104, south_east_target)]) 110
       = Inr \<lparr>latitude = 3, longitude = 10, altitude = 0\<rparr>"
  using sample_buffer_latest_three
          [of mean_time_fit 100
              "[(101, origin_observer), (102, overhead_target),
                (103, north_target), (104, south_east_target)]"
              "ingest mean_time_fit 100 [(101, origin_observer), (102, overhead_target),
                                  (103, north_target)]"
              104 south_east_target 110]
  by (simp add: buffer_ingest sample_times_def sample_positions_def)

section \<open>Properties of the coordinate transform\<close>

text \<open>
  C5: \<open>get_ecef\<close> returns \<open>x = (N + alt) cos \<phi> cos \<lambda>\<close>, \<open>y = (N + alt) cos \<phi> sin \<lambda>\<close> and
  \<open>z = ((Rp\<^sup>2 / Re\<^sup>2) N + alt) sin \<phi>\<close> with \<open>N = sqrt (1 - (1 - Rp\<^sup>2 / Re\<^sup>2) sin\<^sup>2 \<phi>)\<close>,
  \<open>Re = 20925646.3\<close> and \<open>Rp = 20855486.5\<close>.
\<close>

theorem get_ecef_formula:
  "get_ecef \<lparr>latitude = \<phi>, longitude = l, altitude = alt\<rparr> = ecef_spec \<phi> l alt
   \<and> prime_vertical_radius_of_curvature \<phi> = N_spec \<phi>
   \<and> equatorial_radius = 20925646.3 \<and> polar_radius = 20855486.5"
  by (simp add: get_ecef_def ecef_spec_def N_spec_def prime_vertical_radius_of_curvature_def
        equatorial_radius_def polar_radius_def Let_def)

text \<open>\<open>to_local\<close> raises \<open>TypeError\<close> on every observer and target.\<close>

lemma to_local_raises: "to_local self target = Inl TypeError"
  by (simp add: to_local_def Let_def np_array_scalars_def split: prod.splits)

text \<open>
  C4: the claim is that \<open>to_local\<close> returns the azimuth \<open>pi / 2\<close> when the north
  projection is within tolerance of zero. The code does not: for the observer at
  latitude, longitude and altitude 0 and the target one foot above it, on the vertical of
  the observer, \<open>to_local\<close> returns no local coordinate and raises \<open>TypeError\<close> at
  \<open>np.array(a, b, c)\<close>, before a projection is computed.
\<close>

theorem to_local_degenerate_raises:
  "to_local origin_observer overhead_target = Inl TypeError"
  by (rule to_local_raises)

section \<open>Properties of double precision\<close>

lemma round_half_even_le: "y \<le> of_int k \<Longrightarrow> round_half_even y \<le> k"
proof -
  assume le: "y \<le> of_int k"
  then have f: "\<lfloor>y\<rfloor> \<le> k" by (simp add: floor_le_iff)
  show ?thesis
  proof (cases "\<lfloor>y\<rfloor> = k")
    case True
    have "of_int \<lfloor>y\<rfloor> \<le> y" by simp
    with le True have "y = of_int k" by simp
    then show ?thesis by (simp add: round_half_even_def)
  next
    case False
    with f have "\<lfloor>y\<rfloor> + 1 \<le> k" by simp
    then show ?thesis by (simp add: round_half_even_def Let_def)
  qed
qed

lemma round_half_even_ge: "of_int k \<le> y \<Longrightarrow> k \<le> round_half_even y"
proof -
  assume "of_int k \<le> y"
  then have "k \<le> \<lfloor>y\<rfloor>" by (simp add: le_floor_iff)
  then show ?thesis by (simp add: round_half_even_def Let_def)
qed

lemma round_half_even_of_int [simp]: "round_half_even (of_int k) = k"
  by (simp add: round_half_even_def)

lemma double_exponent_mono:
  assumes "0 < y" "y \<le> w"
  shows "double_exponent y \<le> double_exponent w"
proof -
  have "log 2 \<bar>y\<bar> \<le> log 2 \<bar>w\<bar>" using assms by simp
  then have "\<lfloor>log 2 \<bar>y\<bar>\<rfloor> \<le> \<lfloor>log 2 \<bar>w\<bar>\<rfloor>" by (rule floor_mono)
  then show ?thesis by (simp add: double_exponent_def)
qed

lemma round_double_nonneg: "0 \<le> y \<Longrightarrow> 0 \<le> round_double y"
proof -
  assume y: "0 \<le> y"
  have "of_int 0 \<le> y / 2 powi (double_exponent y - 52)" using y by simp
  then have "0 \<le> round_half_even (y / 2 powi (double_exponent y - 52))"
    by (rule round_half_even_ge)
  then show ?thesis by (simp add: round_double_def)
qed

lemma round_double_le:
  assumes y: "0 < y" "y \<le> w"
    and w: "w = of_int m * 2 powi (double_exponent w - 52)"
  shows "round_double y \<le> w"
proof -
  define qy where "qy = double_exponent y - 52"
  define qw where "qw = double_exponent w - 52"
  have q: "qy \<le> qw" unfolding qy_def qw_def using double_exponent_mono [OF y] by simp
  have p: "(0::real) < 2 powi qy" by simp
  have "(2::real) powi qw = 2 powi (qw - qy) * 2 powi qy"
    by (simp add: power_int_add [symmetric])
  also have "(2::real) powi (qw - qy) = 2 ^ nat (qw - qy)"
    using q by (simp add: power_int_nonneg_exp)
  finally have "w = of_int (m * 2 ^ nat (qw - qy)) * 2 powi qy"
    using w by (simp add: qw_def)
  then have wk: "w / 2 powi qy = of_int (m * 2 ^ nat (qw - qy))"
    using p by (simp add: field_simps)
  have "y / 2 powi qy \<le> w / 2 powi qy"
    using y p by (simp add: divide_right_mono)
  then have "round_half_even (y / 2 powi qy) \<le> m * 2 ^ nat (qw - qy)"
    unfolding wk by (rule round_half_even_le)
  then have "real_of_int (round_half_even (y / 2 powi qy)) \<le> of_int (m * 2 ^ nat (qw - qy))"
    by (simp only: of_int_le_iff)
  then have "of_int (round_half_even (y / 2 powi qy)) * 2 powi qy \<le> w / 2 powi qy * 2 powi qy"
    unfolding wk using p by (intro mult_right_mono) simp_all
  then show ?thesis
    using y p by (simp add: round_double_def qy_def)
qed

lemma double_exponentI:
  assumes "0 < x" "2 powi k \<le> x" "x < 2 powi (k + 1)" "- 1022 \<le> k"
  shows "double_exponent x = k"
proof -
  have a: "(2::real) powr of_int k = 2 powi k"
    by (rule powr_real_of_int') simp_all
  have b: "(2::real) powr of_int (k + 1) = 2 powi (k + 1)"
    by (rule powr_real_of_int') simp_all
  have "2 powr of_int k \<le> x \<and> x < 2 powr of_int (k + 1)"
    unfolding a b using assms by simp
  moreover have "(1::real) < 2" by simp
  ultimately have "\<lfloor>log 2 x\<rfloor> = k"
    using assms(1) floor_log_eq_powr_iff [of x 2 k] by blast
  then show ?thesis using assms by (simp add: double_exponent_def)
qed

lemma two_math_pi_exponent: "double_exponent (2 * math_pi) = 2"
  by (rule double_exponentI) (simp_all add: math_pi_def)

lemma two_math_pi_double:
  "2 * math_pi = of_int 7074237752028440 * 2 powi (double_exponent (2 * math_pi) - 52)"
  unfolding two_math_pi_exponent by (simp add: math_pi_def power_int_minus_divide)

lemma round_double_rounds:
  assumes "x \<noteq> 0" "2 powi k \<le> \<bar>x\<bar>" "\<bar>x\<bar> < 2 powi (k + 1)" "- 1022 \<le> k"
    and "round_half_even (x / 2 powi (k - 52)) = n"
  shows "round_double x = of_int n * 2 powi (k - 52)"
proof -
  have "double_exponent \<bar>x\<bar> = k"
    using assms by (intro double_exponentI) simp_all
  then have "double_exponent x = k"
    by (simp add: double_exponent_def)
  then show ?thesis
    using assms by (simp add: round_double_def)
qed

lemma round_double_exact:
  assumes "x \<noteq> 0" "2 powi k \<le> \<bar>x\<bar>" "\<bar>x\<bar> < 2 powi (k + 1)" "- 1022 \<le> k"
    and "x = of_int m * 2 powi (k - 52)"
  shows "round_double x = x"
proof -
  have "x / 2 powi (k - 52) = of_int m"
    by (subst assms(5)) simp
  then have "round_half_even (x / 2 powi (k - 52)) = m"
    by simp
  from round_double_rounds [OF assms(1-4) this] assms(5) show ?thesis
    by simp
qed

lemma to_double_Fin: "\<bar>round_double x\<bar> < 2 ^ 1024 \<Longrightarrow> to_double x = Fin (round_double x)"
  by (simp add: to_double_def Let_def abs_less_iff)

lemma to_double_rounds:
  assumes "x \<noteq> 0" "2 powi k \<le> \<bar>x\<bar>" "\<bar>x\<bar> < 2 powi (k + 1)" "- 1022 \<le> k"
    and "round_half_even (x / 2 powi (k - 52)) = n"
    and "\<bar>of_int n * 2 powi (k - 52)\<bar> < (2::real) ^ 1024"
  shows "to_double x = Fin (of_int n * 2 powi (k - 52))"
  using round_double_rounds [OF assms(1-5)] assms(6) by (simp add: to_double_Fin)

lemma to_double_exact:
  assumes "x \<noteq> 0" "2 powi k \<le> \<bar>x\<bar>" "\<bar>x\<bar> < 2 powi (k + 1)" "- 1022 \<le> k"
    and "x = of_int m * 2 powi (k - 52)" "\<bar>x\<bar> < 2 ^ 1024"
  shows "to_double x = Fin x"
  using round_double_exact [OF assms(1-5)] assms(6) by (simp add: to_double_Fin)

lemma mod_exact_range:
  assumes "0 < b"
  shows "0 \<le> mod_exact a b" "mod_exact a b < b"
proof -
  have "of_int \<lfloor>a / b\<rfloor> * b \<le> a"
    using assms by (rule floor_divide_lower)
  then show "0 \<le> mod_exact a b"
    by (simp add: mod_exact_def mult.commute)
  have "a < (of_int \<lfloor>a / b\<rfloor> + 1) * b"
    using assms by (rule floor_divide_upper)
  then show "mod_exact a b < b"
    by (simp add: mod_exact_def algebra_simps)
qed

lemma mod_exact_pos:
  assumes "0 < b" "a / b \<notin> \<int>"
  shows "0 < mod_exact a b"
proof -
  have "of_int \<lfloor>a / b\<rfloor> \<noteq> a / b"
    using assms(2) by (metis Ints_of_int)
  then have "of_int \<lfloor>a / b\<rfloor> < a / b"
    using of_int_floor_le [of "a / b"] by linarith
  then have "of_int \<lfloor>a / b\<rfloor> * b < a"
    using assms(1) by (simp add: pos_less_divide_eq)
  then show ?thesis
    by (simp add: mod_exact_def mult.commute)
qed

lemma c_trunc_cases: "c_trunc q = (if q < 0 \<and> q \<notin> \<int> then \<lfloor>q\<rfloor> + 1 else \<lfloor>q\<rfloor>)"
proof (cases "q \<in> \<int>")
  case True
  then obtain n where "q = of_int n" by (rule Ints_cases)
  then show ?thesis by (simp add: c_trunc_def)
next
  case False
  then have "q \<noteq> of_int \<lfloor>q\<rfloor>" by (metis Ints_of_int)
  then have "\<lceil>q\<rceil> = \<lfloor>q\<rfloor> + 1" by (simp only: ceiling_altdef if_False)
  with False show ?thesis by (simp add: c_trunc_def)
qed

lemma fmod_mod_exact:
  "fmod x w = (if x / w < 0 \<and> x / w \<notin> \<int> then mod_exact x w - w else mod_exact x w)"
  by (simp add: fmod_def c_trunc_cases mod_exact_def algebra_simps)

lemma float_rem_Fin:
  assumes w: "0 < w" "w = of_int k * 2 powi (double_exponent w - 52)" "w < 2 ^ 1024"
  shows "\<exists>p. float_rem (Fin x) w = Inr (Fin p) \<and> 0 \<le> p \<and> p \<le> w
           \<and> p = (if 0 \<le> x then mod_exact x w else round_double (mod_exact x w))"
proof (cases "x / w < 0 \<and> x / w \<notin> \<int>")
  case True
  then have m: "fmod x w = mod_exact x w - w"
    unfolding fmod_mod_exact by (rule if_P)
  have pos: "0 < mod_exact x w"
    using w(1) True by (intro mod_exact_pos) simp_all
  have lt: "mod_exact x w < w"
    using w(1) by (rule mod_exact_range)
  have up: "round_double (mod_exact x w) \<le> w"
    using pos lt w(2) by (intro round_double_le) simp_all
  have lo: "0 \<le> round_double (mod_exact x w)"
    using pos by (intro round_double_nonneg) simp
  have xneg: "x < 0"
    using True w(1) by (simp add: divide_less_0_iff)
  have "to_double (mod_exact x w) = Fin (round_double (mod_exact x w))"
    using up lo w(3) by (simp add: to_double_def Let_def)
  then have "float_rem (Fin x) w = Inr (Fin (round_double (mod_exact x w)))"
    using w(1) m lt pos by (simp add: float_rem_def Let_def)
  then show ?thesis
    using up lo xneg by simp
next
  case False
  then have m: "fmod x w = mod_exact x w"
    unfolding fmod_mod_exact by (rule if_not_P)
  have r: "0 \<le> mod_exact x w" "mod_exact x w < w"
    using w(1) by (rule mod_exact_range)+
  have zero: "mod_exact x w = 0" if "x < 0"
  proof -
    from that w(1) have "x / w < 0" by (simp add: divide_less_0_iff)
    with False have "x / w \<in> \<int>" by simp
    then obtain n where n: "x / w = of_int n" by (rule Ints_cases)
    then have "x = w * of_int n" using w(1) by (simp add: field_simps)
    with n have "w * of_int \<lfloor>x / w\<rfloor> = x" by simp
    then show ?thesis by (simp add: mod_exact_def)
  qed
  have "float_rem (Fin x) w = Inr (Fin (mod_exact x w))"
    using w(1) m r by (auto simp: float_rem_def Let_def)
  then show ?thesis
    using r zero by (auto simp: round_double_def)
qed

section \<open>Properties of the camera\<close>

lemma two_math_pi_facts:
  "0 < 2 * math_pi" "2 * math_pi < 2 ^ 1024"
  by (simp_all add: math_pi_def)

text \<open>Python's \<open>2 * pi\<close> and \<open>pi / 2\<close> are exact.\<close>

lemma pi_multiples_exact:
  "to_double (2 * math_pi) = Fin (2 * math_pi)"
  "to_double (math_pi / 2) = Fin (math_pi / 2)"
proof -
  show "to_double (2 * math_pi) = Fin (2 * math_pi)"
    by (rule to_double_exact [where k = 2 and m = 7074237752028440])
       (simp_all add: math_pi_def power_int_minus_divide)
  show "to_double (math_pi / 2) = Fin (math_pi / 2)"
    by (rule to_double_exact [where k = 0 and m = 7074237752028440])
       (simp_all add: math_pi_def power_int_minus_divide)
qed

lemma float_rem_negative:
  assumes "0 < w" "fmod x w = m" "m < 0"
  shows "float_rem (Fin x) w = Inr (to_double (m + w))"
  using assms by (simp add: float_rem_def Let_def)

lemma to_servo_Some:
  assumes "direction cam = Some d"
    and "float_sub d (azimuth lc) = v" "float_rem v (2 * math_pi) = Inr pan"
    and "float_sub (math_pi / 2) (altitude_angle lc) = tilt"
  shows "to_servo cam lc = Inr (pan, tilt)"
  using assms by (simp add: to_servo_def)

lemma sub_tiny: "float_sub 0 (1 / 2 ^ 60) = Fin (- (1 / 2 ^ 60))"
  unfolding float_sub_def
  by (rule to_double_exact [where k = "- 60" and m = "- 4503599627370496", THEN trans])
     (simp_all add: power_int_minus_divide)

lemma fmod_tiny: "fmod (- (1 / 2 ^ 60)) (2 * math_pi) = - (1 / 2 ^ 60)"
proof -
  have "\<lceil>- (1 / 2 ^ 60) / (2 * math_pi)\<rceil> = 0"
    by (rule ceiling_unique) (simp_all add: math_pi_def)
  then show ?thesis
    by (simp add: fmod_def c_trunc_def math_pi_def)
qed

text \<open>
  \<open>2 * pi - 2 ^ - 60\<close> lies between the doubles \<open>2 * pi - 2 ^ - 50\<close> and \<open>2 * pi\<close>, much
  nearer to the second.
\<close>

lemma round_up_to_two_pi: "to_double (- (1 / 2 ^ 60) + 2 * math_pi) = Fin (2 * math_pi)"
proof -
  have f: "\<lfloor>(- (1 / 2 ^ 60) + 2 * math_pi) / 2 powi (2 - 52)\<rfloor> = 7074237752028439"
    by (rule floor_unique) (simp_all add: math_pi_def power_int_minus_divide)
  have r: "round_half_even ((- (1 / 2 ^ 60) + 2 * math_pi) / 2 powi (2 - 52)) = 7074237752028440"
    unfolding round_half_even_def Let_def f
    by (simp add: math_pi_def power_int_minus_divide)
  have "to_double (- (1 / 2 ^ 60) + 2 * math_pi)
          = Fin (of_int 7074237752028440 * 2 powi (2 - 52))"
    by (rule to_double_rounds [OF _ _ _ _ r]) (simp_all add: math_pi_def power_int_minus_divide)
  then show ?thesis
    by (simp add: math_pi_def power_int_minus_divide)
qed

lemma mod_exact_tiny:
  "mod_exact (- (1 / 2 ^ 60)) (2 * math_pi) = 2 * math_pi - 1 / 2 ^ 60"
proof -
  have "\<lfloor>- (1 / 2 ^ 60) / (2 * math_pi)\<rfloor> = - 1"
    by (rule floor_unique) (simp_all add: math_pi_def)
  then show ?thesis by (simp add: mod_exact_def)
qed

lemma sub_one: "float_sub 0 1 = Fin (- 1)"
  unfolding float_sub_def
  by (rule to_double_exact [where k = 0 and m = "- 4503599627370496", THEN trans])
     (simp_all add: power_int_minus_divide)

lemma mod_exact_minus_one: "mod_exact (- 1) (2 * math_pi) = 2 * math_pi - 1"
proof -
  have "\<lfloor>- 1 / (2 * math_pi)\<rfloor> = - 1"
    by (rule floor_unique) (simp_all add: math_pi_def)
  then show ?thesis by (simp add: mod_exact_def)
qed

lemma round_two_pi_minus_one: "round_double (2 * math_pi - 1) = 2 * math_pi - 1"
  by (rule round_double_exact [where k = 2 and m = 5948337845185816])
     (simp_all add: math_pi_def power_int_minus_divide)

lemma tilt_below_level: "float_sub (math_pi / 2) 2 = Fin (math_pi / 2 - 2)"
  unfolding float_sub_def
  by (rule to_double_exact [where k = "- 2" and m = "- 7731846010850208", THEN trans])
     (simp_all add: math_pi_def power_int_minus_divide)

text \<open>
  C8, as stated, fails: the pan is not always below \<open>2 * pi\<close>. With the direction 0 and
  the azimuth \<open>2 ^ - 60\<close> the difference is \<open>- 2 ^ - 60\<close>, \<open>fmod\<close> leaves it, and the
  addition of \<open>2 * pi\<close> rounds to \<open>2 * pi\<close>: the pan is the double \<open>2 * pi\<close> itself, and
  not the exact modulo \<open>2 * pi - 2 ^ - 60\<close>.
\<close>

theorem to_servo_pan_counterexample:
  "to_servo whole_sky_camera \<lparr>altitude_angle = 0, azimuth = 1 / 2 ^ 60, distance = 1\<rparr>
     = Inr (Fin (2 * math_pi), Fin (math_pi / 2))
   \<and> mod_exact (0 - 1 / 2 ^ 60) (2 * math_pi) = 2 * math_pi - 1 / 2 ^ 60"
proof
  show "to_servo whole_sky_camera \<lparr>altitude_angle = 0, azimuth = 1 / 2 ^ 60, distance = 1\<rparr>
     = Inr (Fin (2 * math_pi), Fin (math_pi / 2))"
  proof (rule to_servo_Some)
    show "direction whole_sky_camera = Some 0" by simp
    show "float_sub 0 (azimuth \<lparr>altitude_angle = 0, azimuth = 1 / 2 ^ 60, distance = 1\<rparr>)
            = Fin (- (1 / 2 ^ 60))"
      unfolding LocalCoord.simps by (rule sub_tiny)
    have "float_rem (Fin (- (1 / 2 ^ 60))) (2 * math_pi)
            = Inr (to_double (- (1 / 2 ^ 60) + 2 * math_pi))"
      by (rule float_rem_negative [OF two_math_pi_facts(1) fmod_tiny]) simp
    then show "float_rem (Fin (- (1 / 2 ^ 60))) (2 * math_pi) = Inr (Fin (2 * math_pi))"
      unfolding round_up_to_two_pi .
    show "float_sub (math_pi / 2)
            (altitude_angle \<lparr>altitude_angle = 0, azimuth = 1 / 2 ^ 60, distance = 1\<rparr>)
            = Fin (math_pi / 2)"
      unfolding LocalCoord.simps float_sub_def diff_zero by (rule pi_multiples_exact)
  qed
  show "mod_exact (0 - 1 / 2 ^ 60) (2 * math_pi) = 2 * math_pi - 1 / 2 ^ 60"
    unfolding diff_0 by (rule mod_exact_tiny)
qed

text \<open>
  C8, amended: when the direction of the camera is set and the difference
  \<open>direction - azimuth\<close> does not overflow, with \<open>x\<close> the double it rounds to,
  \<open>to_servo\<close> returns the pan \<open>x mod 2 * pi\<close> when \<open>x\<close> is not negative and
  \<open>x mod 2 * pi\<close> rounded to the nearest double when \<open>x\<close> is negative, where \<open>2 * pi\<close> is
  the double of the program; the pan lies in the closed interval from 0 to \<open>2 * pi\<close>.
  The tilt is \<open>pi / 2 - altitude_angle\<close> rounded to the nearest double. Neither angle
  is clamped.
\<close>

theorem to_servo_angles:
  assumes "direction cam = Some d" and "float_sub d (azimuth lc) = Fin x"
  shows "\<exists>p. to_servo cam lc = Inr (Fin p, float_sub (math_pi / 2) (altitude_angle lc))
           \<and> p = (if 0 \<le> x then mod_exact x (2 * math_pi)
                   else round_double (mod_exact x (2 * math_pi)))
           \<and> 0 \<le> p \<and> p \<le> 2 * math_pi"
proof -
  from float_rem_Fin [OF two_math_pi_facts(1) two_math_pi_double two_math_pi_facts(2), of x]
  obtain p where p: "float_rem (Fin x) (2 * math_pi) = Inr (Fin p)"
      "0 \<le> p" "p \<le> 2 * math_pi"
      "p = (if 0 \<le> x then mod_exact x (2 * math_pi)
            else round_double (mod_exact x (2 * math_pi)))"
    by blast
  have "to_servo cam lc = Inr (Fin p, float_sub (math_pi / 2) (altitude_angle lc))"
    using assms p(1) by (rule to_servo_Some) simp
  with p(2-4) show ?thesis by blast
qed

theorem to_servo_angles_witness:
  "direction whole_sky_camera = Some 0
   \<and> float_sub 0 (azimuth \<lparr>altitude_angle = 2, azimuth = 1, distance = 1\<rparr>) = Fin (- 1)
   \<and> to_servo whole_sky_camera \<lparr>altitude_angle = 2, azimuth = 1, distance = 1\<rparr>
       = Inr (Fin (2 * math_pi - 1), Fin (math_pi / 2 - 2))"
proof -
  have d: "direction whole_sky_camera = Some 0" by simp
  have s: "float_sub 0 (azimuth \<lparr>altitude_angle = 2, azimuth = 1, distance = 1\<rparr>) = Fin (- 1)"
    unfolding LocalCoord.simps by (rule sub_one)
  from to_servo_angles [OF d s]
  obtain p where "to_servo whole_sky_camera \<lparr>altitude_angle = 2, azimuth = 1, distance = 1\<rparr>
       = Inr (Fin p, float_sub (math_pi / 2)
                (altitude_angle \<lparr>altitude_angle = 2, azimuth = 1, distance = 1\<rparr>))"
    and "p = (if 0 \<le> (- 1::real) then mod_exact (- 1) (2 * math_pi)
              else round_double (mod_exact (- 1) (2 * math_pi)))"
    by blast
  then have "to_servo whole_sky_camera \<lparr>altitude_angle = 2, azimuth = 1, distance = 1\<rparr>
       = Inr (Fin (2 * math_pi - 1), Fin (math_pi / 2 - 2))"
    by (simp add: mod_exact_minus_one round_two_pi_minus_one tilt_below_level)
  with d s show ?thesis by blast
qed

text \<open>
  C9: when the position or the view of the camera is still \<open>None\<close>, \<open>can_see\<close> ends
  with an error and returns no visibility flag; with the position unset the error is the
  \<open>AttributeError\<close> of \<open>None.to_local\<close>.
\<close>

theorem can_see_uninitialized:
  "(gps_position cam = None \<longrightarrow> can_see cam plane now = Inl AttributeError)
   \<and> (gps_position cam = None \<or> view cam = None \<longrightarrow>
        (\<exists>e. can_see cam plane now = Inl e))"
  by (auto simp: can_see_def to_local_raises split: option.splits sum.splits)

theorem can_see_uninitialized_witness:
  "gps_position Camera_init = None
   \<and> view (whole_sky_camera\<lparr>view := None\<rparr>) = None
   \<and> can_see Camera_init (ingest no_fit 0 [(0, overhead_target)]) 5 = Inl AttributeError
   \<and> can_see (whole_sky_camera\<lparr>view := None\<rparr>)
         (ingest no_fit 0 [(0, overhead_target)]) 5 = Inl TypeError"
  using can_see_uninitialized
          [of Camera_init "ingest no_fit 0 [(0, overhead_target)]" 5]
        can_see_uninitialized
          [of "whole_sky_camera\<lparr>view := None\<rparr>"
              "ingest no_fit 0 [(0, overhead_target)]" 5]
  by (simp add: can_see_def Camera_init_def position_one_sample to_local_raises)

text \<open>
  C3: the claim is that \<open>can_see\<close> converts the estimated position of the aircraft to
  local coordinates and evaluates the containment in the view. The code does not: for the
  camera at latitude, longitude and altitude 0 with the view of the whole sky and the
  aircraft reported one foot above it, \<open>can_see\<close> returns no visibility flag, because
  \<open>to_local\<close> raises \<open>TypeError\<close> at \<open>np.array(a, b, c)\<close> and \<open>View.contains\<close> is never
  called.
\<close>

theorem can_see_raises:
  "can_see whole_sky_camera (ingest no_fit 0 [(0, overhead_target)]) 5 = Inl TypeError"
  by (simp add: can_see_def position_one_sample to_local_raises)

end
